theory Spec2Isabelle
  imports Main "HOL-Library.Word" "HOL-Library.Multiset"
begin

section \<open>Data model\<close>

text \<open>
  Go's \<^verbatim>\<open>int64\<close> is a 64-bit word: \<open>+\<close> and \<open>*\<close> wrap, and the comparisons of the
  source are the signed ones (\<open><s\<close>, \<open>\<le>s\<close>).  A Go \<^verbatim>\<open>error\<close> is represented by its
  message; \<open>None\<close> in an \<open>error option\<close> is the \<^verbatim>\<open>nil\<close> error.
\<close>

type_synonym int64 = "64 word"
type_synonym error = string

text \<open>\<^verbatim>\<open>models.Disk\<close>, restricted to the fields the validators read.\<close>

record disk =
  ID :: string
  SizeBytes :: int64
  DriveType :: string

record cpu =
  Count :: int64

record memory =
  UsableBytes :: int64

text \<open>\<^verbatim>\<open>models.Inventory\<close>: the parsed form of a host's inventory document.  The
  validators read \<^verbatim>\<open>inventory.CPU.Count\<close>, \<^verbatim>\<open>inventory.Memory.UsableBytes\<close> and
  \<^verbatim>\<open>inventory.Disks\<close>; the declaration of the type is outside the sources, and a parsed
  inventory is taken to have its CPU and memory entries and its disks in place.\<close>

record inventory =
  CPU :: cpu
  Memory :: memory
  Disks :: "disk list"

text \<open>\<^verbatim>\<open>models.Host\<close>: the inventory is carried as text, the empty string meaning
  that the host has not reported one yet.\<close>

record host =
  HostID :: string
  Inventory :: string
  InstallationDiskID :: string

text \<open>\<^verbatim>\<open>common.Cluster\<close>: \<open>HighAvailabilityMode\<close> is a \<^verbatim>\<open>*string\<close>, so it may be
  \<^verbatim>\<open>nil\<close>.\<close>

record cluster =
  ClusterID :: string
  HighAvailabilityMode :: "string option"
  OpenshiftVersion :: string
  Hosts :: "host list"

text \<open>\<^verbatim>\<open>api.ValidationStatus\<close> and \<^verbatim>\<open>api.ValidationResult\<close>.\<close>

datatype ValidationStatus = Success | Failure | Pending

record ValidationResult =
  Status :: ValidationStatus
  ValidationId :: string
  Reasons :: "string list"

text \<open>\<^verbatim>\<open>models.ClusterHostRequirementsDetails\<close> (the two quantities the operators set) and
  the requirement tree of \<^verbatim>\<open>models.OperatorHardwareRequirements\<close>.  A \<^verbatim>\<open>nil\<close> worker entry
  is \<open>None\<close>.\<close>

record ClusterHostRequirementsDetails =
  CPUCores :: int64
  RAMMib :: int64

record HostTypeHardwareRequirements =
  Quantitative :: ClusterHostRequirementsDetails
  Qualitative :: "string list"

record HostTypeHardwareRequirementsWrapper =
  Master :: HostTypeHardwareRequirements
  Worker :: "HostTypeHardwareRequirements option"

record OperatorHardwareRequirements =
  OperatorName :: string
  Dependencies :: "string list"
  Requirements :: HostTypeHardwareRequirementsWrapper

text \<open>The validation identifiers are constants of the \<^verbatim>\<open>models\<close> package, whose values
  are not part of the sources at hand; the operators are therefore parameterised by them.\<close>

record ValidationIDs =
  ClusterValidationIDLvmRequirementsSatisfied :: string
  HostValidationIDLvmRequirementsSatisfied :: string
  ClusterValidationIDLsoRequirementsSatisfied :: string
  HostValidationIDLsoRequirementsSatisfied :: string


section \<open>Shared helpers\<close>

text \<open>Modelled from the spec: \<^verbatim>\<open>models.ClusterHighAvailabilityModeFull\<close> and
  \<^verbatim>\<open>models.ClusterHighAvailabilityModeNone\<close>, the two values of the high-availability mode
  (\<open>enum{Full, None}\<close>).\<close>

definition ClusterHighAvailabilityModeFull :: string where
  "ClusterHighAvailabilityModeFull = ''Full''"

definition ClusterHighAvailabilityModeNone :: string where
  "ClusterHighAvailabilityModeNone = ''None''"

text \<open>Modelled from the spec: \<^verbatim>\<open>common.IsSingleNodeCluster\<close> is missing from the sources;
  a cluster is single-node iff its high-availability mode is \<open>None\<close>.  A \<^verbatim>\<open>nil\<close> mode is
  not single-node.\<close>

definition IsSingleNodeCluster :: "cluster \<Rightarrow> bool" where
  "IsSingleNodeCluster c =
     (case HighAvailabilityMode c of
        None \<Rightarrow> False
      | Some m \<Rightarrow> m = ClusterHighAvailabilityModeNone)"

text \<open>Modelled from the spec: package \<^verbatim>\<open>conversions\<close> is missing from the sources; it is
  the single shared MiB/bytes conversion.  \<open>MibToBytes\<close> multiplies by \<open>2^20\<close> in \<^verbatim>\<open>int64\<close>
  (wrapping); \<open>BytesToMib\<close> is Go's integer division, which truncates towards zero.\<close>

definition MiB :: int where
  "MiB = 1048576"

definition MibToBytes :: "int64 \<Rightarrow> int64" where
  "MibToBytes mib = mib * word_of_int MiB"

definition BytesToMib :: "int64 \<Rightarrow> int64" where
  "BytesToMib b = word_of_int (sgn (sint b) * (\<bar>sint b\<bar> div MiB))"

text \<open>The \<^verbatim>\<open>%d\<close> verb of \<^verbatim>\<open>fmt.Sprintf\<close> on an \<^verbatim>\<open>int64\<close>: signed decimal.\<close>

fun digits :: "nat \<Rightarrow> string" where
  "digits n = (if n < 10 then [char_of (48 + n)] else digits (n div 10) @ [char_of (48 + n mod 10)])"

declare digits.simps [simp del]

definition fmt_d :: "int64 \<Rightarrow> string" where
  "fmt_d w = (if sint w < 0 then CHR ''-'' # digits (nat (- sint w)) else digits (nat (sint w)))"


section \<open>The odflvm operator\<close>

text \<open>\<^verbatim>\<open>odf-lvm/validations.go\<close>: the configuration and the disk filter.\<close>

record odflvm_Config =
  ODFLVMCPUPerHost :: int64
  ODFLVMMemoryMiBPerHost :: int64

text \<open>Modelled from the spec: the constants \<^verbatim>\<open>SsdDrive\<close> and \<^verbatim>\<open>HddDrive\<close> of the package
  are declared outside the sources; they name the drive types \<open>SSD\<close> and \<open>HDD\<close>.\<close>

definition SsdDrive :: string where
  "SsdDrive = ''SSD''"

definition HddDrive :: string where
  "HddDrive = ''HDD''"

text \<open>The condition of the \<^verbatim>\<open>if\<close> in the loop body of \<^verbatim>\<open>getValidDiskCount\<close>.\<close>

definition disk_counts :: "string \<Rightarrow> disk \<Rightarrow> bool" where
  "disk_counts installationDiskID d =
     ((DriveType d = SsdDrive \<or> DriveType d = HddDrive)
      \<and> installationDiskID \<noteq> ID d \<and> SizeBytes d \<noteq> 0)"

text \<open>The \<^verbatim>\<open>for ... range disks\<close> loop, with the counter \<^verbatim>\<open>countDisks\<close> as accumulator;
  \<^verbatim>\<open>countDisks++\<close> is an \<^verbatim>\<open>int64\<close> increment.\<close>

fun count_loop :: "string \<Rightarrow> disk list \<Rightarrow> int64 \<Rightarrow> int64" where
  "count_loop installationDiskID [] countDisks = countDisks"
| "count_loop installationDiskID (d # ds) countDisks =
     count_loop installationDiskID ds
       (if disk_counts installationDiskID d then countDisks + 1 else countDisks)"

definition getValidDiskCount :: "disk list \<Rightarrow> string \<Rightarrow> int64" where
  "getValidDiskCount disks installationDiskID = count_loop installationDiskID disks 0"

text \<open>\<^verbatim>\<open>unnamed/part_000\<close>: the operator.  The receiver \<^verbatim>\<open>o\<close> is represented by its
  \<^verbatim>\<open>config\<close> field; the logger does not influence any result.  \<open>UnmarshalInventory\<close> stands
  for \<^verbatim>\<open>common.UnmarshalInventory\<close> (JSON decoding, outside the sources): it yields either
  an error or the parsed inventory.\<close>

definition odflvm_GetName :: string where
  "odflvm_GetName = ''odflvm''"

definition odflvm_GetDependencies :: "string list" where
  "odflvm_GetDependencies = []"

definition odflvm_GetClusterValidationID :: "ValidationIDs \<Rightarrow> string" where
  "odflvm_GetClusterValidationID ids = ClusterValidationIDLsoRequirementsSatisfied ids"

definition odflvm_GetHostValidationID :: "ValidationIDs \<Rightarrow> string" where
  "odflvm_GetHostValidationID ids = HostValidationIDLsoRequirementsSatisfied ids"

definition odflvm_ValidateCluster ::
  "ValidationIDs \<Rightarrow> cluster \<Rightarrow> ValidationResult \<times> error option" where
  "odflvm_ValidateCluster ids cluster =
     (if IsSingleNodeCluster cluster
      then (\<lparr>Status = Success, ValidationId = odflvm_GetClusterValidationID ids, Reasons = []\<rparr>, None)
      else (\<lparr>Status = Failure, ValidationId = odflvm_GetClusterValidationID ids, Reasons = []\<rparr>, None))"

definition odflvm_GetHostRequirements ::
  "odflvm_Config \<Rightarrow> cluster \<Rightarrow> host \<Rightarrow> error + ClusterHostRequirementsDetails" where
  "odflvm_GetHostRequirements config cluster h =
     Inr \<lparr>CPUCores = ODFLVMCPUPerHost config, RAMMib = ODFLVMMemoryMiBPerHost config\<rparr>"

definition odflvm_GetPreflightRequirements ::
  "odflvm_Config \<Rightarrow> cluster \<Rightarrow> error + OperatorHardwareRequirements" where
  "odflvm_GetPreflightRequirements config cluster =
     Inr \<lparr>OperatorName = odflvm_GetName,
          Dependencies = odflvm_GetDependencies,
          Requirements =
            \<lparr>Master =
               \<lparr>Quantitative =
                  \<lparr>CPUCores = ODFLVMCPUPerHost config, RAMMib = ODFLVMMemoryMiBPerHost config\<rparr>,
                Qualitative = [''At least 1 non-bootable disk wih no partitions or filesystems'']\<rparr>,
             Worker = None\<rparr>\<rparr>"

definition odflvm_ValidateHost ::
  "(string \<Rightarrow> error + inventory) \<Rightarrow> ValidationIDs \<Rightarrow> odflvm_Config \<Rightarrow> cluster \<Rightarrow> host
     \<Rightarrow> ValidationResult \<times> error option" where
  "odflvm_ValidateHost UnmarshalInventory ids config cluster h =
     (if Inventory h = []
      then (\<lparr>Status = Pending, ValidationId = odflvm_GetHostValidationID ids,
             Reasons = [''Missing Inventory in the host'']\<rparr>, None)
      else
        case UnmarshalInventory (Inventory h) of
          Inl err \<Rightarrow>
            (\<lparr>Status = Failure, ValidationId = odflvm_GetHostValidationID ids,
              Reasons = [''Failed to get inventory from host'']\<rparr>, Some err)
        | Inr inventory \<Rightarrow>
            let diskCount = getValidDiskCount (Disks inventory) (InstallationDiskID h) in
            if diskCount = 0
            then (\<lparr>Status = Failure, ValidationId = odflvm_GetHostValidationID ids,
                   Reasons = [''Insufficient disks, ODF LVM requires at least one non-bootable disk on the host'']\<rparr>,
                  None)
            else
              (case odflvm_GetHostRequirements config cluster h of
                Inl err \<Rightarrow>
                  (\<lparr>Status = Failure, ValidationId = odflvm_GetHostValidationID ids,
                    Reasons = [''Failed to get host requirements for host with id '' @ HostID h, err]\<rparr>,
                   Some err)
              | Inr requirements \<Rightarrow>
                  let cpu = CPUCores requirements in
                  if Count (CPU inventory) <s cpu
                  then (\<lparr>Status = Failure, ValidationId = odflvm_GetHostValidationID ids,
                         Reasons = [''Insufficient CPU to deploy ODF LVM. Required CPU count is ''
                                    @ fmt_d cpu @ '' but found '' @ fmt_d (Count (CPU inventory)) @ '' '']\<rparr>,
                        None)
                  else
                    let mem = RAMMib requirements;
                        memBytes = MibToBytes mem in
                    if UsableBytes (Memory inventory) <s memBytes
                    then
                      let usableMemory = BytesToMib (UsableBytes (Memory inventory)) in
                      (\<lparr>Status = Failure, ValidationId = odflvm_GetHostValidationID ids,
                        Reasons = [''Insufficient memory to deploy ODF LVM. Required memory is ''
                                   @ fmt_d mem @ '' MiB but found '' @ fmt_d usableMemory @ '' MiB'']\<rparr>,
                       None)
                    else (\<lparr>Status = Success, ValidationId = odflvm_GetHostValidationID ids,
                           Reasons = []\<rparr>, None)))"


section \<open>The lvm operator\<close>

text \<open>\<^verbatim>\<open>lvm/lvm_operator.go\<close>.  The package's \<^verbatim>\<open>Config\<close> is declared outside the sources;
  the operator reads its two fields \<^verbatim>\<open>LvmCPUPerHost\<close> and \<^verbatim>\<open>LvmMemoryPerHostMiB\<close>.\<close>

record lvm_Config =
  LvmCPUPerHost :: int64
  LvmMemoryPerHostMiB :: int64

text \<open>Modelled from the spec: the constant \<^verbatim>\<open>LvmMinOpenshiftVersion\<close> is declared outside
  the sources; the fixed minimum supported version is \<open>4.12.0\<close>, the version the operator's
  own failure message names.\<close>

definition LvmMinOpenshiftVersion :: string where
  "LvmMinOpenshiftVersion = ''4.12.0''"

definition lvm_GetName :: string where
  "lvm_GetName = ''lvm''"

definition lvm_GetDependencies :: "cluster \<Rightarrow> string list" where
  "lvm_GetDependencies cluster = []"

definition lvm_GetClusterValidationID :: "ValidationIDs \<Rightarrow> string" where
  "lvm_GetClusterValidationID ids = ClusterValidationIDLvmRequirementsSatisfied ids"

definition lvm_GetHostValidationID :: "ValidationIDs \<Rightarrow> string" where
  "lvm_GetHostValidationID ids = HostValidationIDLvmRequirementsSatisfied ids"

text \<open>\<open>NewVersion\<close> and \<open>LessThan\<close> stand for \<^verbatim>\<open>version.NewVersion\<close> and
  \<^verbatim>\<open>(*version.Version).LessThan\<close> of the third-party package \<^verbatim>\<open>go-version\<close>; \<open>'v\<close> is its
  type of parsed versions.\<close>

definition lvm_ValidateCluster ::
  "(string \<Rightarrow> error + 'v) \<Rightarrow> ('v \<Rightarrow> 'v \<Rightarrow> bool) \<Rightarrow> ValidationIDs \<Rightarrow> cluster
     \<Rightarrow> ValidationResult \<times> error option" where
  "lvm_ValidateCluster NewVersion LessThan ids cluster =
     (if \<not> IsSingleNodeCluster cluster
      then (\<lparr>Status = Failure, ValidationId = lvm_GetClusterValidationID ids,
             Reasons = [''ODF LVM operator is only supported for Single Node Openshift deployment'']\<rparr>,
            None)
      else
        case NewVersion (OpenshiftVersion cluster) of
          Inl err \<Rightarrow>
            (\<lparr>Status = Failure, ValidationId = lvm_GetHostValidationID ids, Reasons = [err]\<rparr>, None)
        | Inr ocpVersion \<Rightarrow>
            (case NewVersion LvmMinOpenshiftVersion of
              Inl err \<Rightarrow>
                (\<lparr>Status = Failure, ValidationId = lvm_GetHostValidationID ids, Reasons = [err]\<rparr>,
                 None)
            | Inr minOpenshiftVersionForLvm \<Rightarrow>
                if LessThan ocpVersion minOpenshiftVersionForLvm
                then (\<lparr>Status = Failure, ValidationId = lvm_GetClusterValidationID ids,
                       Reasons = [''ODF LVM operator is only supported for openshift versions 4.12.0 and above'']\<rparr>,
                      None)
                else (\<lparr>Status = Success, ValidationId = lvm_GetClusterValidationID ids,
                       Reasons = []\<rparr>, None)))"

definition lvm_GetPreflightRequirements ::
  "lvm_Config \<Rightarrow> cluster \<Rightarrow> error + OperatorHardwareRequirements" where
  "lvm_GetPreflightRequirements config cluster =
     Inr \<lparr>OperatorName = lvm_GetName,
          Dependencies = lvm_GetDependencies cluster,
          Requirements =
            \<lparr>Master =
               \<lparr>Quantitative =
                  \<lparr>CPUCores = LvmCPUPerHost config, RAMMib = LvmMemoryPerHostMiB config\<rparr>,
                Qualitative = [''At least 1 non-installation disk wih no partitions or filesystems'']\<rparr>,
             Worker = Some \<lparr>Quantitative = \<lparr>CPUCores = 0, RAMMib = 0\<rparr>, Qualitative = []\<rparr>\<rparr>\<rparr>"

text \<open>The error branch only logs and hands the error on.\<close>

definition lvm_GetHostRequirements ::
  "lvm_Config \<Rightarrow> cluster \<Rightarrow> host \<Rightarrow> error + ClusterHostRequirementsDetails" where
  "lvm_GetHostRequirements config cluster h =
     (case lvm_GetPreflightRequirements config cluster of
        Inl err \<Rightarrow> Inl err
      | Inr preflightRequirements \<Rightarrow>
          Inr (Quantitative (Master (Requirements preflightRequirements))))"

text \<open>The package's own \<^verbatim>\<open>getValidDiskCount\<close>, which returns a count and an error, is declared
  outside the sources; it is the parameter \<open>lvm_getValidDiskCount\<close>.\<close>

definition lvm_ValidateHost ::
  "(string \<Rightarrow> error + inventory) \<Rightarrow> (disk list \<Rightarrow> string \<Rightarrow> error + int64) \<Rightarrow> ValidationIDs
     \<Rightarrow> lvm_Config \<Rightarrow> cluster \<Rightarrow> host \<Rightarrow> ValidationResult \<times> error option" where
  "lvm_ValidateHost UnmarshalInventory lvm_getValidDiskCount ids config cluster h =
     (if Inventory h = []
      then (\<lparr>Status = Pending, ValidationId = lvm_GetHostValidationID ids,
             Reasons = [''Missing Inventory in the host'']\<rparr>, None)
      else
        case UnmarshalInventory (Inventory h) of
          Inl err \<Rightarrow>
            (\<lparr>Status = Failure, ValidationId = lvm_GetHostValidationID ids,
              Reasons = [''Failed to get inventory from host'']\<rparr>, Some err)
        | Inr inventory \<Rightarrow>
            (case lvm_getValidDiskCount (Disks inventory) (InstallationDiskID h) of
              Inl err \<Rightarrow>
                (\<lparr>Status = Failure, ValidationId = lvm_GetHostValidationID ids, Reasons = [err]\<rparr>,
                 None)
            | Inr diskCount \<Rightarrow>
                if diskCount = 0
                then (\<lparr>Status = Failure, ValidationId = lvm_GetHostValidationID ids,
                       Reasons = [''Insufficient disks, ODF LVM requires at least one non-installation disk on the host'']\<rparr>,
                      None)
                else
                  (case lvm_GetHostRequirements config cluster h of
                    Inl err \<Rightarrow>
                      (\<lparr>Status = Failure, ValidationId = lvm_GetHostValidationID ids,
                        Reasons = [''Failed to get the host requirements for host with id '' @ HostID h,
                                   err]\<rparr>,
                       Some err)
                  | Inr requirements \<Rightarrow>
                      let cpu = CPUCores requirements in
                      if Count (CPU inventory) <s cpu
                      then (\<lparr>Status = Failure, ValidationId = lvm_GetHostValidationID ids,
                             Reasons = [''Insufficient CPU to deploy ODF LVM. The required CPU count is ''
                                        @ fmt_d cpu @ '' but found '' @ fmt_d (Count (CPU inventory))]\<rparr>,
                            None)
                      else
                        let memory = RAMMib requirements;
                            memoryBytes = MibToBytes memory in
                        if UsableBytes (Memory inventory) <s memoryBytes
                        then
                          let usableMemory = BytesToMib (UsableBytes (Memory inventory)) in
                          (\<lparr>Status = Failure, ValidationId = lvm_GetHostValidationID ids,
                            Reasons = [''Insufficient memory to deploy ODF LVM. The required memory is ''
                                       @ fmt_d memory @ '' MiB but found '' @ fmt_d usableMemory @ '' MiB'']\<rparr>,
                           None)
                        else (\<lparr>Status = Success, ValidationId = lvm_GetHostValidationID ids,
                               Reasons = []\<rparr>, None))))"


section \<open>Sample collaborators and fixtures\<close>

text \<open>Concrete stand-ins for the collaborators the operators are parameterised by, used to
  run the validators on concrete inputs.  The version parser accepts dotted decimal numbers
  only and compares them segment by segment, a missing segment reading as \<open>0\<close>.\<close>

fun split_on :: "char \<Rightarrow> string \<Rightarrow> string list" where
  "split_on c [] = [[]]"
| "split_on c (x # xs) =
     (if x = c then [] # split_on c xs
      else (case split_on c xs of
              [] \<Rightarrow> [[x]]
            | w # ws \<Rightarrow> (x # w) # ws))"

definition is_digit :: "char \<Rightarrow> bool" where
  "is_digit ch = (48 \<le> (of_char ch :: nat) \<and> (of_char ch :: nat) \<le> 57)"

definition parse_nat :: "string \<Rightarrow> nat option" where
  "parse_nat s =
     (if s \<noteq> [] \<and> list_all is_digit s
      then Some (foldl (\<lambda>a ch. 10 * a + (of_char ch - 48)) 0 s)
      else None)"

definition sample_NewVersion :: "string \<Rightarrow> error + nat list" where
  "sample_NewVersion s =
     (let parts = map parse_nat (split_on (CHR ''.'') s) in
      if list_all (\<lambda>p. p \<noteq> None) parts
      then Inr (map the parts)
      else Inl (''Malformed version: '' @ s))"

fun sample_LessThan :: "nat list \<Rightarrow> nat list \<Rightarrow> bool" where
  "sample_LessThan [] [] = False"
| "sample_LessThan [] (y # ys) = (0 < y \<or> sample_LessThan [] ys)"
| "sample_LessThan (x # xs) [] = False"
| "sample_LessThan (x # xs) (y # ys) = (x < y \<or> (x = y \<and> sample_LessThan xs ys))"

text \<open>A version parser that rejects every string, the minimum-version constant included.\<close>

definition failing_NewVersion :: "string \<Rightarrow> error + nat list" where
  "failing_NewVersion s = Inl (''Malformed version: '' @ s)"

text \<open>The fixtures of the operator's test suite: two disks, the first one being the
  installation disk, and hosts built from them.\<close>

definition diskID1 :: string where
  "diskID1 = ''/dev/disk/by-id/test-disk-1''"

definition diskID2 :: string where
  "diskID2 = ''/dev/disk/by-id/test-disk-2''"

definition GB :: int64 where
  "GB = 1000000000"

definition GiB :: int64 where
  "GiB = 1073741824"

definition disk1 :: disk where
  "disk1 = \<lparr>ID = diskID1, SizeBytes = 20 * GB, DriveType = ''HDD''\<rparr>"

definition disk2 :: disk where
  "disk2 = \<lparr>ID = diskID2, SizeBytes = 40 * GB, DriveType = ''SSD''\<rparr>"

definition inventoryInsufficientDisks :: inventory where
  "inventoryInsufficientDisks =
     \<lparr>CPU = \<lparr>Count = 12\<rparr>, Memory = \<lparr>UsableBytes = 32 * GiB\<rparr>, Disks = [disk1]\<rparr>"

definition inventorySufficientResources :: inventory where
  "inventorySufficientResources =
     \<lparr>CPU = \<lparr>Count = 12\<rparr>, Memory = \<lparr>UsableBytes = 32 * GiB\<rparr>, Disks = [disk1, disk2]\<rparr>"

definition inventoryInsufficientCPU :: inventory where
  "inventoryInsufficientCPU =
     \<lparr>CPU = \<lparr>Count = 0\<rparr>, Memory = \<lparr>UsableBytes = 32 * GiB\<rparr>, Disks = [disk1, disk2]\<rparr>"

definition inventoryInsufficientRAM :: inventory where
  "inventoryInsufficientRAM =
     \<lparr>CPU = \<lparr>Count = 12\<rparr>, Memory = \<lparr>UsableBytes = 1199 * word_of_int MiB\<rparr>,
      Disks = [disk1, disk2]\<rparr>"

definition inventoryExactResources :: inventory where
  "inventoryExactResources =
     \<lparr>CPU = \<lparr>Count = 1\<rparr>, Memory = \<lparr>UsableBytes = 1258291200\<rparr>, Disks = [disk1, disk2]\<rparr>"

text \<open>A stand-in for the JSON decoder: it knows five documents and rejects every other
  text.\<close>

definition sample_documents :: "(string \<times> inventory) list" where
  "sample_documents =
     [(''{insufficient disks}'', inventoryInsufficientDisks),
      (''{insufficient cpu}'', inventoryInsufficientCPU),
      (''{insufficient ram}'', inventoryInsufficientRAM),
      (''{sufficient resources}'', inventorySufficientResources),
      (''{exact resources}'', inventoryExactResources)]"

definition sample_UnmarshalInventory :: "string \<Rightarrow> error + inventory" where
  "sample_UnmarshalInventory s =
     (case map_of sample_documents s of
        None \<Rightarrow> Inl ''invalid character in inventory''
      | Some inventory \<Rightarrow> Inr inventory)"

text \<open>A stand-in for the lvm package's disk counter: the odflvm filter, never failing.\<close>

definition sample_lvm_getValidDiskCount :: "disk list \<Rightarrow> string \<Rightarrow> error + int64" where
  "sample_lvm_getValidDiskCount disks installationDiskID =
     Inr (getValidDiskCount disks installationDiskID)"

definition hostWithNoInventory :: host where
  "hostWithNoInventory = \<lparr>HostID = [], Inventory = [], InstallationDiskID = []\<rparr>"

definition hostWithInsufficientDisks :: host where
  "hostWithInsufficientDisks =
     \<lparr>HostID = ''host-1'', Inventory = ''{insufficient disks}'', InstallationDiskID = diskID1\<rparr>"

definition hostWithInsufficientCPU :: host where
  "hostWithInsufficientCPU =
     \<lparr>HostID = ''host-5'', Inventory = ''{insufficient cpu}'', InstallationDiskID = diskID1\<rparr>"

definition hostWithInsufficientRAM :: host where
  "hostWithInsufficientRAM =
     \<lparr>HostID = ''host-6'', Inventory = ''{insufficient ram}'', InstallationDiskID = diskID1\<rparr>"

definition hostWithSufficientResources :: host where
  "hostWithSufficientResources =
     \<lparr>HostID = ''host-2'', Inventory = ''{sufficient resources}'', InstallationDiskID = diskID1\<rparr>"

definition hostWithExactResources :: host where
  "hostWithExactResources =
     \<lparr>HostID = ''host-3'', Inventory = ''{exact resources}'', InstallationDiskID = diskID1\<rparr>"

definition hostWithMalformedInventory :: host where
  "hostWithMalformedInventory =
     \<lparr>HostID = ''host-4'', Inventory = ''{'', InstallationDiskID = diskID1\<rparr>"

definition sample_ids :: ValidationIDs where
  "sample_ids =
     \<lparr>ClusterValidationIDLvmRequirementsSatisfied = ''cluster-lvm-requirements-satisfied'',
      HostValidationIDLvmRequirementsSatisfied = ''host-lvm-requirements-satisfied'',
      ClusterValidationIDLsoRequirementsSatisfied = ''cluster-lso-requirements-satisfied'',
      HostValidationIDLsoRequirementsSatisfied = ''host-lso-requirements-satisfied''\<rparr>"

definition sample_lvm_config :: lvm_Config where
  "sample_lvm_config = \<lparr>LvmCPUPerHost = 1, LvmMemoryPerHostMiB = 1200\<rparr>"

definition sample_odflvm_config :: odflvm_Config where
  "sample_odflvm_config = \<lparr>ODFLVMCPUPerHost = 1, ODFLVMMemoryMiBPerHost = 1200\<rparr>"

definition clusterFull :: cluster where
  "clusterFull =
     \<lparr>ClusterID = ''cluster-1'', HighAvailabilityMode = Some ClusterHighAvailabilityModeFull,
      OpenshiftVersion = ''4.12.0'',
      Hosts = [hostWithSufficientResources, hostWithSufficientResources]\<rparr>"

definition clusterNoneOld :: cluster where
  "clusterNoneOld =
     \<lparr>ClusterID = ''cluster-2'', HighAvailabilityMode = Some ClusterHighAvailabilityModeNone,
      OpenshiftVersion = ''4.10.0'', Hosts = [hostWithSufficientResources]\<rparr>"

definition clusterNone :: cluster where
  "clusterNone =
     \<lparr>ClusterID = ''cluster-3'', HighAvailabilityMode = Some ClusterHighAvailabilityModeNone,
      OpenshiftVersion = ''4.12.0'', Hosts = [hostWithSufficientResources]\<rparr>"

definition clusterNoneMalformed :: cluster where
  "clusterNoneMalformed =
     \<lparr>ClusterID = ''cluster-4'', HighAvailabilityMode = Some ClusterHighAvailabilityModeNone,
      OpenshiftVersion = ''latest'', Hosts = [hostWithSufficientResources]\<rparr>"


section \<open>The disk filter\<close>

text \<open>The loop adds one to its counter for every disk that satisfies the condition, so
  the result is the number of such disks, read into \<^verbatim>\<open>int64\<close>.\<close>

lemma count_loop_filter:
  "count_loop i ds acc = acc + of_nat (length (filter (disk_counts i) ds))"
  by (induction ds arbitrary: acc) simp_all

lemma getValidDiskCount_filter:
  "getValidDiskCount ds i = of_nat (length (filter (disk_counts i) ds))"
  by (simp add: getValidDiskCount_def count_loop_filter)

lemma sint_of_nat_int64:
  assumes "n < 2 ^ 63"
  shows "sint (of_nat n :: int64) = int n"
proof -
  have "signed_take_bit 63 (int n) = int n"
    using assms by (intro signed_take_bit_int_eq_self) simp_all
  then show ?thesis by (simp add: signed_of_nat)
qed

lemma disk_counts_spec:
  "disk_counts i d = (DriveType d \<in> {HddDrive, SsdDrive} \<and> SizeBytes d \<noteq> 0 \<and> ID d \<noteq> i)"
  by (auto simp: disk_counts_def)

lemma getValidDiskCount_sint:
  assumes "length disks < 2 ^ 63"
  shows "sint (getValidDiskCount disks i) = int (length (filter (disk_counts i) disks))"
proof -
  have "length (filter (disk_counts i) disks) \<le> length disks"
    by (rule length_filter_le)
  from this assms have "length (filter (disk_counts i) disks) < 2 ^ 63"
    by (rule le_less_trans)
  then have "sint (of_nat (length (filter (disk_counts i) disks)) :: int64)
               = int (length (filter (disk_counts i) disks))"
    by (rule sint_of_nat_int64)
  then show ?thesis
    unfolding getValidDiskCount_filter .
qed

lemma getValidDiskCount_mset:
  assumes "mset disks' = mset disks"
  shows "getValidDiskCount disks' i = getValidDiskCount disks i"
proof -
  from assms have "mset (filter (disk_counts i) disks') = mset (filter (disk_counts i) disks)"
    by simp
  then have "length (filter (disk_counts i) disks') = length (filter (disk_counts i) disks)"
    by (rule mset_eq_length)
  then show ?thesis
    unfolding getValidDiskCount_filter by (rule arg_cong)
qed

text \<open>
  \<^bold>\<open>Claim C4.\<close>  For every sequence of disks and every installation-disk id, the count
  returned by \<^verbatim>\<open>getValidDiskCount\<close> is the number of disks of the sequence whose drive type
  is HDD or SSD, whose size is not zero and whose id differs from the installation-disk id.
  Hence the count is the same for every reordering of the sequence, and it never exceeds the
  length of the sequence.  The sequence is a Go slice, which holds fewer than \<open>2^63\<close>
  elements, so the \<^verbatim>\<open>int64\<close> counter does not wrap.
\<close>

theorem getValidDiskCount_counts_eligible:
  assumes "length disks < 2 ^ 63"
  shows "sint (getValidDiskCount disks installationDiskID) =
           int (length (filter (\<lambda>d. DriveType d \<in> {HddDrive, SsdDrive} \<and> SizeBytes d \<noteq> 0
                                      \<and> ID d \<noteq> installationDiskID) disks))
         \<and> (\<forall>disks'. mset disks' = mset disks \<longrightarrow>
               getValidDiskCount disks' installationDiskID = getValidDiskCount disks installationDiskID)
         \<and> sint (getValidDiskCount disks installationDiskID) \<le> int (length disks)"
proof (intro conjI allI impI)
  have cnt: "sint (getValidDiskCount disks installationDiskID)
               = int (length (filter (disk_counts installationDiskID) disks))"
    using assms by (rule getValidDiskCount_sint)
  have "filter (\<lambda>d. DriveType d \<in> {HddDrive, SsdDrive} \<and> SizeBytes d \<noteq> 0
                      \<and> ID d \<noteq> installationDiskID) disks
          = filter (disk_counts installationDiskID) disks"
    by (rule filter_cong) (simp_all only: disk_counts_spec)
  with cnt show "sint (getValidDiskCount disks installationDiskID) =
           int (length (filter (\<lambda>d. DriveType d \<in> {HddDrive, SsdDrive} \<and> SizeBytes d \<noteq> 0
                                      \<and> ID d \<noteq> installationDiskID) disks))"
    by (simp only:)
  have "length (filter (disk_counts installationDiskID) disks) \<le> length disks"
    by (rule length_filter_le)
  with cnt show "sint (getValidDiskCount disks installationDiskID) \<le> int (length disks)"
    by (simp only: of_nat_le_iff)
next
  fix disks'
  assume "mset disks' = mset disks"
  then show "getValidDiskCount disks' installationDiskID = getValidDiskCount disks installationDiskID"
    by (rule getValidDiskCount_mset)
qed

text \<open>The two disks of the test suite, the first being the installation disk: one disk
  counts, in either order.\<close>

theorem getValidDiskCount_counts_eligible_witness:
  "length [disk1, disk2] < 2 ^ 63
   \<and> sint (getValidDiskCount [disk1, disk2] diskID1) = 1
   \<and> getValidDiskCount [disk2, disk1] diskID1 = getValidDiskCount [disk1, disk2] diskID1
   \<and> sint (getValidDiskCount [disk1, disk2] diskID1) \<le> 2"
proof -
  have len: "length [disk1, disk2] < 2 ^ 63" by simp
  have perm: "mset [disk2, disk1] = mset [disk1, disk2]" by simp
  have flt: "filter (\<lambda>d. DriveType d \<in> {HddDrive, SsdDrive} \<and> SizeBytes d \<noteq> 0 \<and> ID d \<noteq> diskID1)
               [disk1, disk2] = [disk2]"
    by code_simp
  note inst = getValidDiskCount_counts_eligible [OF len, of diskID1]
  from inst have "sint (getValidDiskCount [disk1, disk2] diskID1) =
      int (length (filter (\<lambda>d. DriveType d \<in> {HddDrive, SsdDrive} \<and> SizeBytes d \<noteq> 0
                                 \<and> ID d \<noteq> diskID1) [disk1, disk2]))"
    by (rule conjunct1)
  then have a: "sint (getValidDiskCount [disk1, disk2] diskID1) = 1"
    unfolding flt by simp
  from inst have "\<forall>disks'. mset disks' = mset [disk1, disk2] \<longrightarrow>
      getValidDiskCount disks' diskID1 = getValidDiskCount [disk1, disk2] diskID1"
    by (rule conjunct2 [THEN conjunct1])
  with perm have b: "getValidDiskCount [disk2, disk1] diskID1 = getValidDiskCount [disk1, disk2] diskID1"
    by blast
  from inst have "sint (getValidDiskCount [disk1, disk2] diskID1) \<le> int (length [disk1, disk2])"
    by (rule conjunct2 [THEN conjunct2])
  then have c: "sint (getValidDiskCount [disk1, disk2] diskID1) \<le> 2"
    by simp
  from len a b c show ?thesis by (intro conjI)
qed


section \<open>Host validation\<close>

text \<open>The branches of \<^verbatim>\<open>ValidateHost\<close>, one lemma for each way through the function.\<close>

lemma sless_zero_neq: "0 <s (n :: int64) \<Longrightarrow> n \<noteq> 0"
  by auto

lemma sle_not_sless: "(a :: int64) \<le>s b \<Longrightarrow> \<not> b <s a"
  by (simp add: signed.not_less)

lemma odflvm_ValidateHost_parsed:
  assumes "Inventory h \<noteq> []" and "UnmarshalInventory (Inventory h) = Inr inventory"
  shows "odflvm_ValidateHost UnmarshalInventory ids config c h =
     (if getValidDiskCount (Disks inventory) (InstallationDiskID h) = 0
      then (\<lparr>Status = Failure, ValidationId = odflvm_GetHostValidationID ids,
             Reasons = [''Insufficient disks, ODF LVM requires at least one non-bootable disk on the host'']\<rparr>,
            None)
      else if Count (CPU inventory) <s ODFLVMCPUPerHost config
      then (\<lparr>Status = Failure, ValidationId = odflvm_GetHostValidationID ids,
             Reasons = [''Insufficient CPU to deploy ODF LVM. Required CPU count is ''
                        @ fmt_d (ODFLVMCPUPerHost config) @ '' but found ''
                        @ fmt_d (Count (CPU inventory)) @ '' '']\<rparr>, None)
      else if UsableBytes (Memory inventory) <s MibToBytes (ODFLVMMemoryMiBPerHost config)
      then (\<lparr>Status = Failure, ValidationId = odflvm_GetHostValidationID ids,
             Reasons = [''Insufficient memory to deploy ODF LVM. Required memory is ''
                        @ fmt_d (ODFLVMMemoryMiBPerHost config) @ '' MiB but found ''
                        @ fmt_d (BytesToMib (UsableBytes (Memory inventory))) @ '' MiB'']\<rparr>, None)
      else (\<lparr>Status = Success, ValidationId = odflvm_GetHostValidationID ids, Reasons = []\<rparr>, None))"
  using assms
  by (simp add: odflvm_ValidateHost_def odflvm_GetHostRequirements_def Let_def)

lemma lvm_GetHostRequirements_eq:
  "lvm_GetHostRequirements config c h =
     Inr \<lparr>CPUCores = LvmCPUPerHost config, RAMMib = LvmMemoryPerHostMiB config\<rparr>"
  by (simp add: lvm_GetHostRequirements_def lvm_GetPreflightRequirements_def)

lemma lvm_ValidateHost_parsed:
  assumes "Inventory h \<noteq> []" and "UnmarshalInventory (Inventory h) = Inr inventory"
    and "lvm_getValidDiskCount (Disks inventory) (InstallationDiskID h) = Inr diskCount"
  shows "lvm_ValidateHost UnmarshalInventory lvm_getValidDiskCount ids config c h =
     (if diskCount = 0
      then (\<lparr>Status = Failure, ValidationId = lvm_GetHostValidationID ids,
             Reasons = [''Insufficient disks, ODF LVM requires at least one non-installation disk on the host'']\<rparr>,
            None)
      else if Count (CPU inventory) <s LvmCPUPerHost config
      then (\<lparr>Status = Failure, ValidationId = lvm_GetHostValidationID ids,
             Reasons = [''Insufficient CPU to deploy ODF LVM. The required CPU count is ''
                        @ fmt_d (LvmCPUPerHost config) @ '' but found ''
                        @ fmt_d (Count (CPU inventory))]\<rparr>, None)
      else if UsableBytes (Memory inventory) <s MibToBytes (LvmMemoryPerHostMiB config)
      then (\<lparr>Status = Failure, ValidationId = lvm_GetHostValidationID ids,
             Reasons = [''Insufficient memory to deploy ODF LVM. The required memory is ''
                        @ fmt_d (LvmMemoryPerHostMiB config) @ '' MiB but found ''
                        @ fmt_d (BytesToMib (UsableBytes (Memory inventory))) @ '' MiB'']\<rparr>, None)
      else (\<lparr>Status = Success, ValidationId = lvm_GetHostValidationID ids, Reasons = []\<rparr>, None))"
  using assms
  by (simp add: lvm_ValidateHost_def lvm_GetHostRequirements_eq Let_def)

lemma odflvm_ValidateHost_no_inventory:
  assumes "Inventory h = []"
  shows "odflvm_ValidateHost UnmarshalInventory ids config c h =
           (\<lparr>Status = Pending, ValidationId = odflvm_GetHostValidationID ids,
              Reasons = [''Missing Inventory in the host'']\<rparr>, None)"
  using assms by (simp add: odflvm_ValidateHost_def)

lemma lvm_ValidateHost_no_inventory:
  assumes "Inventory h = []"
  shows "lvm_ValidateHost UnmarshalInventory lvm_getValidDiskCount ids config c h =
           (\<lparr>Status = Pending, ValidationId = lvm_GetHostValidationID ids,
              Reasons = [''Missing Inventory in the host'']\<rparr>, None)"
  using assms by (simp add: lvm_ValidateHost_def)

lemma odflvm_ValidateHost_unparsable:
  assumes "Inventory h \<noteq> []" and "UnmarshalInventory (Inventory h) = Inl err"
  shows "odflvm_ValidateHost UnmarshalInventory ids config c h =
           (\<lparr>Status = Failure, ValidationId = odflvm_GetHostValidationID ids,
              Reasons = [''Failed to get inventory from host'']\<rparr>, Some err)"
  using assms by (simp add: odflvm_ValidateHost_def)

lemma lvm_ValidateHost_unparsable:
  assumes "Inventory h \<noteq> []" and "UnmarshalInventory (Inventory h) = Inl err"
  shows "lvm_ValidateHost UnmarshalInventory lvm_getValidDiskCount ids config c h =
           (\<lparr>Status = Failure, ValidationId = lvm_GetHostValidationID ids,
              Reasons = [''Failed to get inventory from host'']\<rparr>, Some err)"
  using assms by (simp add: lvm_ValidateHost_def)

lemma lvm_ValidateHost_count_error:
  assumes "Inventory h \<noteq> []" and "UnmarshalInventory (Inventory h) = Inr inventory"
    and "lvm_getValidDiskCount (Disks inventory) (InstallationDiskID h) = Inl err"
  shows "lvm_ValidateHost UnmarshalInventory lvm_getValidDiskCount ids config c h =
           (\<lparr>Status = Failure, ValidationId = lvm_GetHostValidationID ids, Reasons = [err]\<rparr>, None)"
  using assms by (simp add: lvm_ValidateHost_def)

lemma odflvm_ValidateHost_with_inventory:
  assumes "Inventory h \<noteq> []"
  shows "Status (fst (odflvm_ValidateHost UnmarshalInventory ids config c h)) \<in> {Success, Failure}"
proof (cases "UnmarshalInventory (Inventory h)")
  case (Inl err)
  with assms show ?thesis
    by (simp add: odflvm_ValidateHost_unparsable [where UnmarshalInventory = UnmarshalInventory])
next
  case (Inr inventory)
  with assms show ?thesis
    by (simp add: odflvm_ValidateHost_parsed [where UnmarshalInventory = UnmarshalInventory])
qed

lemma lvm_ValidateHost_with_inventory:
  assumes "Inventory h \<noteq> []"
  shows "Status (fst (lvm_ValidateHost UnmarshalInventory lvm_getValidDiskCount ids config c h))
           \<in> {Success, Failure}"
proof (cases "UnmarshalInventory (Inventory h)")
  case (Inl err)
  with assms show ?thesis
    by (simp add: lvm_ValidateHost_unparsable [where UnmarshalInventory = UnmarshalInventory])
next
  case parsed: (Inr inventory)
  show ?thesis
  proof (cases "lvm_getValidDiskCount (Disks inventory) (InstallationDiskID h)")
    case (Inl err)
    with assms parsed show ?thesis
      by (simp add: lvm_ValidateHost_count_error [where UnmarshalInventory = UnmarshalInventory
            and lvm_getValidDiskCount = lvm_getValidDiskCount])
  next
    case (Inr diskCount)
    with assms parsed show ?thesis
      by (simp add: lvm_ValidateHost_parsed [where UnmarshalInventory = UnmarshalInventory
            and lvm_getValidDiskCount = lvm_getValidDiskCount])
  qed
qed

text \<open>
  \<^bold>\<open>Claim C1.\<close>  For every host whose inventory is present and parses, whose eligible-disk count is at
  least 1, whose CPU count is at least the required number of cores and whose usable memory
  is at least the required RAM converted from MiB to bytes, \<^verbatim>\<open>ValidateHost\<close> returns the
  verdict \<open>Success\<close> with no reasons (and no error), in both operators.  For the lvm operator
  the count is the one its own disk counter returns.
\<close>

theorem ValidateHost_success_when_requirements_met:
  assumes "Inventory h \<noteq> []"
    and "UnmarshalInventory (Inventory h) = Inr inventory"
    and "CPUCores req \<le>s Count (CPU inventory)"
    and "MibToBytes (RAMMib req) \<le>s UsableBytes (Memory inventory)"
  shows "(0 <s getValidDiskCount (Disks inventory) (InstallationDiskID h)
            \<and> odflvm_GetHostRequirements oc c h = Inr req
          \<longrightarrow> odflvm_ValidateHost UnmarshalInventory ids oc c h =
                (\<lparr>Status = Success, ValidationId = odflvm_GetHostValidationID ids, Reasons = []\<rparr>,
                 None))
       \<and> (lvm_getValidDiskCount (Disks inventory) (InstallationDiskID h) = Inr n \<and> 0 <s n
            \<and> lvm_GetHostRequirements lc c h = Inr req
          \<longrightarrow> lvm_ValidateHost UnmarshalInventory lvm_getValidDiskCount ids lc c h =
                (\<lparr>Status = Success, ValidationId = lvm_GetHostValidationID ids, Reasons = []\<rparr>,
                 None))"
proof (intro conjI impI)
  assume a: "0 <s getValidDiskCount (Disks inventory) (InstallationDiskID h)
               \<and> odflvm_GetHostRequirements oc c h = Inr req"
  then have req: "req = \<lparr>CPUCores = ODFLVMCPUPerHost oc, RAMMib = ODFLVMMemoryMiBPerHost oc\<rparr>"
    by (simp add: odflvm_GetHostRequirements_def)
  from a have nz: "getValidDiskCount (Disks inventory) (InstallationDiskID h) \<noteq> 0"
    by (simp add: sless_zero_neq)
  from assms(3) req have cpu: "\<not> Count (CPU inventory) <s ODFLVMCPUPerHost oc"
    by (simp add: sle_not_sless)
  from assms(4) req have mem: "\<not> UsableBytes (Memory inventory) <s MibToBytes (ODFLVMMemoryMiBPerHost oc)"
    by (simp add: sle_not_sless)
  from nz cpu mem
  show "odflvm_ValidateHost UnmarshalInventory ids oc c h =
          (\<lparr>Status = Success, ValidationId = odflvm_GetHostValidationID ids, Reasons = []\<rparr>, None)"
    by (simp add: odflvm_ValidateHost_parsed [where UnmarshalInventory = UnmarshalInventory, OF assms(1,2)])
next
  assume a: "lvm_getValidDiskCount (Disks inventory) (InstallationDiskID h) = Inr n \<and> 0 <s n
               \<and> lvm_GetHostRequirements lc c h = Inr req"
  then have req: "req = \<lparr>CPUCores = LvmCPUPerHost lc, RAMMib = LvmMemoryPerHostMiB lc\<rparr>"
    by (simp add: lvm_GetHostRequirements_eq)
  from a have cnt: "lvm_getValidDiskCount (Disks inventory) (InstallationDiskID h) = Inr n"
    by simp
  from a have nz: "n \<noteq> 0"
    by (simp add: sless_zero_neq)
  from assms(3) req have cpu: "\<not> Count (CPU inventory) <s LvmCPUPerHost lc"
    by (simp add: sle_not_sless)
  from assms(4) req have mem: "\<not> UsableBytes (Memory inventory) <s MibToBytes (LvmMemoryPerHostMiB lc)"
    by (simp add: sle_not_sless)
  from nz cpu mem
  show "lvm_ValidateHost UnmarshalInventory lvm_getValidDiskCount ids lc c h =
          (\<lparr>Status = Success, ValidationId = lvm_GetHostValidationID ids, Reasons = []\<rparr>, None)"
    by (simp add: lvm_ValidateHost_parsed [where UnmarshalInventory = UnmarshalInventory and lvm_getValidDiskCount = lvm_getValidDiskCount, OF assms(1,2) cnt])
qed

text \<open>The host with sufficient resources of the test suite, against a requirement of
  1 core and 1200 MiB.\<close>

theorem ValidateHost_success_when_requirements_met_witness:
  "Inventory hostWithSufficientResources \<noteq> []
   \<and> sample_UnmarshalInventory (Inventory hostWithSufficientResources)
       = Inr inventorySufficientResources
   \<and> odflvm_ValidateHost sample_UnmarshalInventory sample_ids sample_odflvm_config clusterNone
         hostWithSufficientResources =
       (\<lparr>Status = Success, ValidationId = odflvm_GetHostValidationID sample_ids, Reasons = []\<rparr>,
        None)
   \<and> lvm_ValidateHost sample_UnmarshalInventory sample_lvm_getValidDiskCount sample_ids
         sample_lvm_config clusterNone hostWithSufficientResources =
       (\<lparr>Status = Success, ValidationId = lvm_GetHostValidationID sample_ids, Reasons = []\<rparr>,
        None)"
proof -
  let ?req = "\<lparr>CPUCores = 1, RAMMib = 1200\<rparr>"
  have h1: "Inventory hostWithSufficientResources \<noteq> []"
    by code_simp
  have h2: "sample_UnmarshalInventory (Inventory hostWithSufficientResources)
              = Inr inventorySufficientResources"
    by code_simp
  have h3: "CPUCores ?req \<le>s Count (CPU inventorySufficientResources)"
    by code_simp
  have h4: "MibToBytes (RAMMib ?req) \<le>s UsableBytes (Memory inventorySufficientResources)"
    by code_simp
  have o1: "0 <s getValidDiskCount (Disks inventorySufficientResources)
                   (InstallationDiskID hostWithSufficientResources)
            \<and> odflvm_GetHostRequirements sample_odflvm_config clusterNone
                 hostWithSufficientResources = Inr ?req"
    by code_simp
  have l1: "sample_lvm_getValidDiskCount (Disks inventorySufficientResources)
              (InstallationDiskID hostWithSufficientResources) = Inr 1
            \<and> 0 <s (1 :: int64)
            \<and> lvm_GetHostRequirements sample_lvm_config clusterNone
                 hostWithSufficientResources = Inr ?req"
    by code_simp
  note inst = ValidateHost_success_when_requirements_met
    [where h = hostWithSufficientResources and UnmarshalInventory = sample_UnmarshalInventory
       and inventory = inventorySufficientResources and req = ?req
       and oc = sample_odflvm_config and lc = sample_lvm_config and c = clusterNone
       and ids = sample_ids and lvm_getValidDiskCount = sample_lvm_getValidDiskCount
       and n = 1, OF h1 h2 h3 h4]
  from inst [THEN conjunct1] o1 have a: "odflvm_ValidateHost sample_UnmarshalInventory sample_ids
      sample_odflvm_config clusterNone hostWithSufficientResources =
       (\<lparr>Status = Success, ValidationId = odflvm_GetHostValidationID sample_ids, Reasons = []\<rparr>,
        None)"
    by (rule mp)
  from inst [THEN conjunct2] l1 have b: "lvm_ValidateHost sample_UnmarshalInventory
      sample_lvm_getValidDiskCount sample_ids sample_lvm_config clusterNone
      hostWithSufficientResources =
       (\<lparr>Status = Success, ValidationId = lvm_GetHostValidationID sample_ids, Reasons = []\<rparr>,
        None)"
    by (rule mp)
  from h1 h2 a b show ?thesis by (intro conjI)
qed

text \<open>
  \<^bold>\<open>Claim C2.\<close>  \<^verbatim>\<open>ValidateHost\<close> returns \<open>Pending\<close> if and only if the host's inventory is the
  empty string; with an inventory the status is \<open>Success\<close> or \<open>Failure\<close>, and without one it
  is neither.  This holds in both operators, for every decoder and every disk counter.
\<close>

theorem ValidateHost_pending_iff_inventory_absent:
  "((Status (fst (odflvm_ValidateHost UnmarshalInventory ids oc c h)) = Pending)
      = (Inventory h = []))
   \<and> ((Status (fst (odflvm_ValidateHost UnmarshalInventory ids oc c h)) \<in> {Success, Failure})
      = (Inventory h \<noteq> []))
   \<and> ((Status (fst (lvm_ValidateHost UnmarshalInventory lvm_getValidDiskCount ids lc c h)) = Pending)
      = (Inventory h = []))
   \<and> ((Status (fst (lvm_ValidateHost UnmarshalInventory lvm_getValidDiskCount ids lc c h))
          \<in> {Success, Failure})
      = (Inventory h \<noteq> []))"
proof (cases "Inventory h = []")
  case True
  then show ?thesis
    by (simp add: odflvm_ValidateHost_no_inventory lvm_ValidateHost_no_inventory)
next
  case False
  from False
  have "Status (fst (odflvm_ValidateHost UnmarshalInventory ids oc c h)) \<in> {Success, Failure}"
    by (rule odflvm_ValidateHost_with_inventory)
  moreover from False
  have "Status (fst (lvm_ValidateHost UnmarshalInventory lvm_getValidDiskCount ids lc c h))
          \<in> {Success, Failure}"
    by (rule lvm_ValidateHost_with_inventory)
  ultimately show ?thesis using False by auto
qed

text \<open>
  \<^bold>\<open>Claim C3.\<close>  For every host whose inventory is present and parses but has no eligible disk,
  \<^verbatim>\<open>ValidateHost\<close> returns the insufficient-disks \<open>Failure\<close>, whatever the CPU count, the
  memory and the configured requirements are: the CPU and RAM checks are not reached.
\<close>

theorem ValidateHost_failure_without_eligible_disk:
  assumes "Inventory h \<noteq> []"
    and "UnmarshalInventory (Inventory h) = Inr inventory"
  shows "(getValidDiskCount (Disks inventory) (InstallationDiskID h) = 0
          \<longrightarrow> odflvm_ValidateHost UnmarshalInventory ids oc c h =
                (\<lparr>Status = Failure, ValidationId = odflvm_GetHostValidationID ids,
                   Reasons = [''Insufficient disks, ODF LVM requires at least one non-bootable disk on the host'']\<rparr>,
                 None))
       \<and> (lvm_getValidDiskCount (Disks inventory) (InstallationDiskID h) = Inr 0
          \<longrightarrow> lvm_ValidateHost UnmarshalInventory lvm_getValidDiskCount ids lc c h =
                (\<lparr>Status = Failure, ValidationId = lvm_GetHostValidationID ids,
                   Reasons = [''Insufficient disks, ODF LVM requires at least one non-installation disk on the host'']\<rparr>,
                 None))"
proof (intro conjI impI)
  assume "getValidDiskCount (Disks inventory) (InstallationDiskID h) = 0"
  then show "odflvm_ValidateHost UnmarshalInventory ids oc c h =
                (\<lparr>Status = Failure, ValidationId = odflvm_GetHostValidationID ids,
                   Reasons = [''Insufficient disks, ODF LVM requires at least one non-bootable disk on the host'']\<rparr>,
                 None)"
    by (simp add: odflvm_ValidateHost_parsed [where UnmarshalInventory = UnmarshalInventory, OF assms])
next
  assume cnt: "lvm_getValidDiskCount (Disks inventory) (InstallationDiskID h) = Inr 0"
  show "lvm_ValidateHost UnmarshalInventory lvm_getValidDiskCount ids lc c h =
                (\<lparr>Status = Failure, ValidationId = lvm_GetHostValidationID ids,
                   Reasons = [''Insufficient disks, ODF LVM requires at least one non-installation disk on the host'']\<rparr>,
                 None)"
    by (simp add: lvm_ValidateHost_parsed [where UnmarshalInventory = UnmarshalInventory
          and lvm_getValidDiskCount = lvm_getValidDiskCount, OF assms cnt])
qed

text \<open>The host of the test suite whose only disk is the installation disk; it has 12 cores
  and 32 GiB of memory.\<close>

theorem ValidateHost_failure_without_eligible_disk_witness:
  "Inventory hostWithInsufficientDisks \<noteq> []
   \<and> sample_UnmarshalInventory (Inventory hostWithInsufficientDisks) = Inr inventoryInsufficientDisks
   \<and> getValidDiskCount (Disks inventoryInsufficientDisks) (InstallationDiskID hostWithInsufficientDisks) = 0
   \<and> Status (fst (odflvm_ValidateHost sample_UnmarshalInventory sample_ids sample_odflvm_config
                    clusterNone hostWithInsufficientDisks)) = Failure
   \<and> Status (fst (lvm_ValidateHost sample_UnmarshalInventory sample_lvm_getValidDiskCount sample_ids
                    sample_lvm_config clusterNone hostWithInsufficientDisks)) = Failure"
proof -
  have h1: "Inventory hostWithInsufficientDisks \<noteq> []"
    by code_simp
  have h2: "sample_UnmarshalInventory (Inventory hostWithInsufficientDisks)
              = Inr inventoryInsufficientDisks"
    by code_simp
  have o1: "getValidDiskCount (Disks inventoryInsufficientDisks)
              (InstallationDiskID hostWithInsufficientDisks) = 0"
    by code_simp
  have l1: "sample_lvm_getValidDiskCount (Disks inventoryInsufficientDisks)
              (InstallationDiskID hostWithInsufficientDisks) = Inr 0"
    by code_simp
  note inst = ValidateHost_failure_without_eligible_disk
    [where h = hostWithInsufficientDisks and UnmarshalInventory = sample_UnmarshalInventory
       and inventory = inventoryInsufficientDisks
       and oc = sample_odflvm_config and lc = sample_lvm_config and c = clusterNone
       and ids = sample_ids and lvm_getValidDiskCount = sample_lvm_getValidDiskCount, OF h1 h2]
  from inst [THEN conjunct1] o1
  have "odflvm_ValidateHost sample_UnmarshalInventory sample_ids sample_odflvm_config clusterNone
          hostWithInsufficientDisks =
        (\<lparr>Status = Failure, ValidationId = odflvm_GetHostValidationID sample_ids,
           Reasons = [''Insufficient disks, ODF LVM requires at least one non-bootable disk on the host'']\<rparr>,
         None)"
    by (rule mp)
  then have a: "Status (fst (odflvm_ValidateHost sample_UnmarshalInventory sample_ids
                   sample_odflvm_config clusterNone hostWithInsufficientDisks)) = Failure"
    by simp
  from inst [THEN conjunct2] l1
  have "lvm_ValidateHost sample_UnmarshalInventory sample_lvm_getValidDiskCount sample_ids
          sample_lvm_config clusterNone hostWithInsufficientDisks =
        (\<lparr>Status = Failure, ValidationId = lvm_GetHostValidationID sample_ids,
           Reasons = [''Insufficient disks, ODF LVM requires at least one non-installation disk on the host'']\<rparr>,
         None)"
    by (rule mp)
  then have b: "Status (fst (lvm_ValidateHost sample_UnmarshalInventory sample_lvm_getValidDiskCount
                   sample_ids sample_lvm_config clusterNone hostWithInsufficientDisks)) = Failure"
    by simp
  from h1 h2 o1 a b show ?thesis by (intro conjI)
qed

text \<open>
  \<^bold>\<open>Claim C6.\<close>  The CPU and RAM comparisons are strict: for every host whose inventory parses with at
  least one eligible disk, whose CPU count equals the required number of cores and whose
  usable memory equals the required RAM converted to bytes, neither check fails and the
  verdict is \<open>Success\<close>, in both operators.
\<close>

theorem ValidateHost_success_at_exact_requirements:
  assumes "Inventory h \<noteq> []"
    and "UnmarshalInventory (Inventory h) = Inr inventory"
    and "Count (CPU inventory) = CPUCores req"
    and "UsableBytes (Memory inventory) = MibToBytes (RAMMib req)"
  shows "\<not> Count (CPU inventory) <s CPUCores req
       \<and> \<not> UsableBytes (Memory inventory) <s MibToBytes (RAMMib req)
       \<and> (0 <s getValidDiskCount (Disks inventory) (InstallationDiskID h)
            \<and> odflvm_GetHostRequirements oc c h = Inr req
          \<longrightarrow> odflvm_ValidateHost UnmarshalInventory ids oc c h =
                (\<lparr>Status = Success, ValidationId = odflvm_GetHostValidationID ids, Reasons = []\<rparr>,
                 None))
       \<and> (lvm_getValidDiskCount (Disks inventory) (InstallationDiskID h) = Inr n \<and> 0 <s n
            \<and> lvm_GetHostRequirements lc c h = Inr req
          \<longrightarrow> lvm_ValidateHost UnmarshalInventory lvm_getValidDiskCount ids lc c h =
                (\<lparr>Status = Success, ValidationId = lvm_GetHostValidationID ids, Reasons = []\<rparr>,
                 None))"
proof (intro conjI impI)
  from assms(3) show cpu: "\<not> Count (CPU inventory) <s CPUCores req"
    by simp
  from assms(4) show mem: "\<not> UsableBytes (Memory inventory) <s MibToBytes (RAMMib req)"
    by simp
  {
    assume a: "0 <s getValidDiskCount (Disks inventory) (InstallationDiskID h)
                 \<and> odflvm_GetHostRequirements oc c h = Inr req"
    then have req: "req = \<lparr>CPUCores = ODFLVMCPUPerHost oc, RAMMib = ODFLVMMemoryMiBPerHost oc\<rparr>"
      by (simp add: odflvm_GetHostRequirements_def)
    from a have nz: "getValidDiskCount (Disks inventory) (InstallationDiskID h) \<noteq> 0"
      by (simp add: sless_zero_neq)
    from cpu req have cpu': "\<not> Count (CPU inventory) <s ODFLVMCPUPerHost oc"
      by simp
    from mem req
    have mem': "\<not> UsableBytes (Memory inventory) <s MibToBytes (ODFLVMMemoryMiBPerHost oc)"
      by simp
    from nz cpu' mem'
    show "odflvm_ValidateHost UnmarshalInventory ids oc c h =
            (\<lparr>Status = Success, ValidationId = odflvm_GetHostValidationID ids, Reasons = []\<rparr>, None)"
      by (simp add: odflvm_ValidateHost_parsed
            [where UnmarshalInventory = UnmarshalInventory, OF assms(1,2)])
  }
  {
    assume a: "lvm_getValidDiskCount (Disks inventory) (InstallationDiskID h) = Inr n \<and> 0 <s n
                 \<and> lvm_GetHostRequirements lc c h = Inr req"
    then have req: "req = \<lparr>CPUCores = LvmCPUPerHost lc, RAMMib = LvmMemoryPerHostMiB lc\<rparr>"
      by (simp add: lvm_GetHostRequirements_eq)
    from a have cnt: "lvm_getValidDiskCount (Disks inventory) (InstallationDiskID h) = Inr n"
      by simp
    from a have nz: "n \<noteq> 0"
      by (simp add: sless_zero_neq)
    from cpu req have cpu': "\<not> Count (CPU inventory) <s LvmCPUPerHost lc"
      by simp
    from mem req
    have mem': "\<not> UsableBytes (Memory inventory) <s MibToBytes (LvmMemoryPerHostMiB lc)"
      by simp
    from nz cpu' mem'
    show "lvm_ValidateHost UnmarshalInventory lvm_getValidDiskCount ids lc c h =
            (\<lparr>Status = Success, ValidationId = lvm_GetHostValidationID ids, Reasons = []\<rparr>, None)"
      by (simp add: lvm_ValidateHost_parsed
            [where UnmarshalInventory = UnmarshalInventory
               and lvm_getValidDiskCount = lvm_getValidDiskCount, OF assms(1,2) cnt])
  }
qed

text \<open>A host with exactly 1 core and exactly 1200 MiB of memory, against a requirement of
  1 core and 1200 MiB.\<close>

theorem ValidateHost_success_at_exact_requirements_witness:
  "Inventory hostWithExactResources \<noteq> []
   \<and> sample_UnmarshalInventory (Inventory hostWithExactResources) = Inr inventoryExactResources
   \<and> Count (CPU inventoryExactResources) = LvmCPUPerHost sample_lvm_config
   \<and> UsableBytes (Memory inventoryExactResources)
       = MibToBytes (LvmMemoryPerHostMiB sample_lvm_config)
   \<and> odflvm_ValidateHost sample_UnmarshalInventory sample_ids sample_odflvm_config clusterNone
         hostWithExactResources =
       (\<lparr>Status = Success, ValidationId = odflvm_GetHostValidationID sample_ids, Reasons = []\<rparr>,
        None)
   \<and> lvm_ValidateHost sample_UnmarshalInventory sample_lvm_getValidDiskCount sample_ids
         sample_lvm_config clusterNone hostWithExactResources =
       (\<lparr>Status = Success, ValidationId = lvm_GetHostValidationID sample_ids, Reasons = []\<rparr>,
        None)"
proof -
  let ?req = "\<lparr>CPUCores = 1, RAMMib = 1200\<rparr>"
  have h1: "Inventory hostWithExactResources \<noteq> []"
    by code_simp
  have h2: "sample_UnmarshalInventory (Inventory hostWithExactResources)
              = Inr inventoryExactResources"
    by code_simp
  have h3: "Count (CPU inventoryExactResources) = CPUCores ?req"
    by code_simp
  have h4: "UsableBytes (Memory inventoryExactResources) = MibToBytes (RAMMib ?req)"
    by code_simp
  have e3: "Count (CPU inventoryExactResources) = LvmCPUPerHost sample_lvm_config"
    by code_simp
  have e4: "UsableBytes (Memory inventoryExactResources)
              = MibToBytes (LvmMemoryPerHostMiB sample_lvm_config)"
    by code_simp
  have o1: "0 <s getValidDiskCount (Disks inventoryExactResources)
                   (InstallationDiskID hostWithExactResources)
            \<and> odflvm_GetHostRequirements sample_odflvm_config clusterNone
                 hostWithExactResources = Inr ?req"
    by code_simp
  have l1: "sample_lvm_getValidDiskCount (Disks inventoryExactResources)
              (InstallationDiskID hostWithExactResources) = Inr 1
            \<and> 0 <s (1 :: int64)
            \<and> lvm_GetHostRequirements sample_lvm_config clusterNone
                 hostWithExactResources = Inr ?req"
    by code_simp
  note inst = ValidateHost_success_at_exact_requirements
    [where h = hostWithExactResources and UnmarshalInventory = sample_UnmarshalInventory
       and inventory = inventoryExactResources and req = ?req
       and oc = sample_odflvm_config and lc = sample_lvm_config and c = clusterNone
       and ids = sample_ids and lvm_getValidDiskCount = sample_lvm_getValidDiskCount
       and n = 1, OF h1 h2 h3 h4]
  from inst [THEN conjunct2, THEN conjunct2, THEN conjunct1] o1
  have a: "odflvm_ValidateHost sample_UnmarshalInventory sample_ids
      sample_odflvm_config clusterNone hostWithExactResources =
       (\<lparr>Status = Success, ValidationId = odflvm_GetHostValidationID sample_ids, Reasons = []\<rparr>,
        None)"
    by (rule mp)
  from inst [THEN conjunct2, THEN conjunct2, THEN conjunct2] l1
  have b: "lvm_ValidateHost sample_UnmarshalInventory
      sample_lvm_getValidDiskCount sample_ids sample_lvm_config clusterNone
      hostWithExactResources =
       (\<lparr>Status = Success, ValidationId = lvm_GetHostValidationID sample_ids, Reasons = []\<rparr>,
        None)"
    by (rule mp)
  from h1 h2 e3 e4 a b show ?thesis by (intro conjI)
qed

text \<open>
  \<^bold>\<open>Claim C10.\<close>  For every host and every two clusters, \<^verbatim>\<open>ValidateHost\<close> returns the same result for
  both clusters, and so does \<^verbatim>\<open>GetHostRequirements\<close>: the requirements come from the
  configuration alone.
\<close>

theorem ValidateHost_independent_of_cluster:
  "odflvm_ValidateHost UnmarshalInventory ids oc c1 h
     = odflvm_ValidateHost UnmarshalInventory ids oc c2 h
   \<and> lvm_ValidateHost UnmarshalInventory lvm_getValidDiskCount ids lc c1 h
     = lvm_ValidateHost UnmarshalInventory lvm_getValidDiskCount ids lc c2 h
   \<and> odflvm_GetHostRequirements oc c1 h = odflvm_GetHostRequirements oc c2 h
   \<and> lvm_GetHostRequirements lc c1 h = lvm_GetHostRequirements lc c2 h"
proof -
  have o: "odflvm_GetHostRequirements oc c1 h = odflvm_GetHostRequirements oc c2 h"
    by (simp add: odflvm_GetHostRequirements_def)
  have "lvm_GetDependencies c1 = lvm_GetDependencies c2"
    by (simp add: lvm_GetDependencies_def)
  then have "lvm_GetPreflightRequirements lc c1 = lvm_GetPreflightRequirements lc c2"
    by (simp add: lvm_GetPreflightRequirements_def)
  then have l: "lvm_GetHostRequirements lc c1 h = lvm_GetHostRequirements lc c2 h"
    by (simp add: lvm_GetHostRequirements_def)
  show ?thesis
    unfolding odflvm_ValidateHost_def lvm_ValidateHost_def o l
    by (intro conjI refl)
qed


section \<open>The operator's test suite\<close>

text \<open>The entries of the lvm operator's test tables, run on the model with a requirement of
  1 core and 1200 MiB: the verdicts and the texts of the reasons are the expected ones.\<close>

lemma suite_ValidateHost_insufficient_CPU:
  "lvm_ValidateHost sample_UnmarshalInventory sample_lvm_getValidDiskCount sample_ids
     sample_lvm_config clusterNone hostWithInsufficientCPU =
   (\<lparr>Status = Failure, ValidationId = lvm_GetHostValidationID sample_ids,
      Reasons = [''Insufficient CPU to deploy ODF LVM. The required CPU count is 1 but found 0'']\<rparr>,
    None)"
  by code_simp

lemma suite_ValidateHost_insufficient_RAM:
  "lvm_ValidateHost sample_UnmarshalInventory sample_lvm_getValidDiskCount sample_ids
     sample_lvm_config clusterNone hostWithInsufficientRAM =
   (\<lparr>Status = Failure, ValidationId = lvm_GetHostValidationID sample_ids,
      Reasons = [''Insufficient memory to deploy ODF LVM. The required memory is 1200 MiB but found 1199 MiB'']\<rparr>,
    None)"
  by code_simp

lemma suite_ValidateHost_no_inventory:
  "lvm_ValidateHost sample_UnmarshalInventory sample_lvm_getValidDiskCount sample_ids
     sample_lvm_config clusterNone hostWithNoInventory =
   (\<lparr>Status = Pending, ValidationId = lvm_GetHostValidationID sample_ids,
      Reasons = [''Missing Inventory in the host'']\<rparr>, None)"
  by code_simp

lemma suite_ValidateCluster:
  "Status (fst (lvm_ValidateCluster sample_NewVersion sample_LessThan sample_ids clusterFull)) = Failure
   \<and> Status (fst (lvm_ValidateCluster sample_NewVersion sample_LessThan sample_ids clusterNoneOld)) = Failure
   \<and> Status (fst (lvm_ValidateCluster sample_NewVersion sample_LessThan sample_ids clusterNone)) = Success"
  by code_simp


section \<open>Cluster validation\<close>

text \<open>
  \<^bold>\<open>Claim C5.\<close>  As stated, the claim says that \<^verbatim>\<open>ValidateCluster\<close> returns \<open>Success\<close> if and only if the
  cluster is single-node and its version parses and is not below the minimum.  The odflvm
  operator does not look at the version: a single-node cluster at version 4.10.0, below the
  minimum 4.12.0, is a \<open>Success\<close> there.
\<close>

theorem ValidateCluster_success_iff_counterexample:
  "IsSingleNodeCluster clusterNoneOld
   \<and> sample_NewVersion (OpenshiftVersion clusterNoneOld) = Inr [4, 10, 0]
   \<and> sample_NewVersion LvmMinOpenshiftVersion = Inr [4, 12, 0]
   \<and> sample_LessThan [4, 10, 0] [4, 12, 0]
   \<and> Status (fst (odflvm_ValidateCluster sample_ids clusterNoneOld)) = Success"
  by code_simp

text \<open>
  \<^bold>\<open>Claim C5, amended.\<close>  In the lvm operator, \<^verbatim>\<open>ValidateCluster\<close> returns \<open>Success\<close> if and only
  if the cluster is single-node, both the cluster's version and the minimum-version constant
  parse, and the cluster's version is not less than the minimum; in every other case it returns
  \<open>Failure\<close>.  In the odflvm operator, \<^verbatim>\<open>ValidateCluster\<close> returns \<open>Success\<close> if and only if the
  cluster is single-node, and \<open>Failure\<close> otherwise.
\<close>

theorem ValidateCluster_success_iff:
  "((Status (fst (lvm_ValidateCluster NewVersion LessThan ids c)) = Success)
      = (IsSingleNodeCluster c
         \<and> (\<exists>v vmin. NewVersion (OpenshiftVersion c) = Inr v
                \<and> NewVersion LvmMinOpenshiftVersion = Inr vmin \<and> \<not> LessThan v vmin)))
   \<and> ((Status (fst (lvm_ValidateCluster NewVersion LessThan ids c)) = Failure)
      = (\<not> (IsSingleNodeCluster c
         \<and> (\<exists>v vmin. NewVersion (OpenshiftVersion c) = Inr v
                \<and> NewVersion LvmMinOpenshiftVersion = Inr vmin \<and> \<not> LessThan v vmin))))
   \<and> ((Status (fst (odflvm_ValidateCluster ids c)) = Success) = IsSingleNodeCluster c)
   \<and> ((Status (fst (odflvm_ValidateCluster ids c)) = Failure) = (\<not> IsSingleNodeCluster c))"
proof -
  have o: "Status (fst (odflvm_ValidateCluster ids c))
             = (if IsSingleNodeCluster c then Success else Failure)"
    by (simp add: odflvm_ValidateCluster_def)
  have l: "Status (fst (lvm_ValidateCluster NewVersion LessThan ids c))
             = (if IsSingleNodeCluster c
                   \<and> (\<exists>v vmin. NewVersion (OpenshiftVersion c) = Inr v
                          \<and> NewVersion LvmMinOpenshiftVersion = Inr vmin \<and> \<not> LessThan v vmin)
                then Success else Failure)"
    by (simp add: lvm_ValidateCluster_def split: sum.split)
  show ?thesis
    unfolding o l by simp
qed

text \<open>
  \<^bold>\<open>Claim C9.\<close>  In the lvm operator, when \<^verbatim>\<open>ValidateCluster\<close> fails because the cluster's version or
  the minimum-version constant does not parse, the verdict carries the host validation
  identifier; every other verdict of \<^verbatim>\<open>ValidateCluster\<close> carries the cluster validation
  identifier.
\<close>

theorem lvm_ValidateCluster_validation_id:
  "(if IsSingleNodeCluster c
       \<and> (isl (NewVersion (OpenshiftVersion c)) \<or> isl (NewVersion LvmMinOpenshiftVersion))
    then Status (fst (lvm_ValidateCluster NewVersion LessThan ids c)) = Failure
         \<and> ValidationId (fst (lvm_ValidateCluster NewVersion LessThan ids c))
             = lvm_GetHostValidationID ids
    else ValidationId (fst (lvm_ValidateCluster NewVersion LessThan ids c))
           = lvm_GetClusterValidationID ids)"
proof (cases "IsSingleNodeCluster c")
  case False
  then show ?thesis
    by (simp add: lvm_ValidateCluster_def)
next
  case single: True
  show ?thesis
  proof (cases "NewVersion (OpenshiftVersion c)")
    case (Inl err)
    with single show ?thesis
      by (simp add: lvm_ValidateCluster_def)
  next
    case ocp: (Inr ocpVersion)
    show ?thesis
    proof (cases "NewVersion LvmMinOpenshiftVersion")
      case (Inl err)
      with single ocp show ?thesis
        by (simp add: lvm_ValidateCluster_def)
    next
      case (Inr minOpenshiftVersionForLvm)
      with single ocp show ?thesis
        by (simp add: lvm_ValidateCluster_def)
    qed
  qed
qed

text \<open>A malformed cluster version, a parser that rejects the minimum-version constant, and a
  version below the minimum, with two distinct identifiers.\<close>

theorem lvm_ValidateCluster_validation_id_witness:
  "ValidationId (fst (lvm_ValidateCluster sample_NewVersion sample_LessThan sample_ids
                        clusterNoneMalformed)) = ''host-lvm-requirements-satisfied''
   \<and> ValidationId (fst (lvm_ValidateCluster failing_NewVersion sample_LessThan sample_ids
                        clusterNone)) = ''host-lvm-requirements-satisfied''
   \<and> ValidationId (fst (lvm_ValidateCluster sample_NewVersion sample_LessThan sample_ids
                        clusterNoneOld)) = ''cluster-lvm-requirements-satisfied''"
proof -
  have c1: "IsSingleNodeCluster clusterNoneMalformed
            \<and> (isl (sample_NewVersion (OpenshiftVersion clusterNoneMalformed))
                \<or> isl (sample_NewVersion LvmMinOpenshiftVersion))"
    by code_simp
  have c2: "IsSingleNodeCluster clusterNone
            \<and> (isl (failing_NewVersion (OpenshiftVersion clusterNone))
                \<or> isl (failing_NewVersion LvmMinOpenshiftVersion))"
    by code_simp
  have c3: "\<not> (IsSingleNodeCluster clusterNoneOld
            \<and> (isl (sample_NewVersion (OpenshiftVersion clusterNoneOld))
                \<or> isl (sample_NewVersion LvmMinOpenshiftVersion)))"
    by code_simp
  have h: "lvm_GetHostValidationID sample_ids = ''host-lvm-requirements-satisfied''"
    by code_simp
  have k: "lvm_GetClusterValidationID sample_ids = ''cluster-lvm-requirements-satisfied''"
    by code_simp
  from lvm_ValidateCluster_validation_id
         [of clusterNoneMalformed sample_NewVersion sample_LessThan sample_ids] c1
  have a: "ValidationId (fst (lvm_ValidateCluster sample_NewVersion sample_LessThan sample_ids
                        clusterNoneMalformed)) = ''host-lvm-requirements-satisfied''"
    unfolding h by simp
  from lvm_ValidateCluster_validation_id
         [of clusterNone failing_NewVersion sample_LessThan sample_ids] c2
  have b: "ValidationId (fst (lvm_ValidateCluster failing_NewVersion sample_LessThan sample_ids
                        clusterNone)) = ''host-lvm-requirements-satisfied''"
    unfolding h by simp
  from lvm_ValidateCluster_validation_id
         [of clusterNoneOld sample_NewVersion sample_LessThan sample_ids] c3
  have d: "ValidationId (fst (lvm_ValidateCluster sample_NewVersion sample_LessThan sample_ids
                        clusterNoneOld)) = ''cluster-lvm-requirements-satisfied''"
    unfolding k by simp
  from a b d show ?thesis by (intro conjI)
qed


section \<open>Reasons and errors\<close>

text \<open>The verdicts of the lvm operator and the host verdicts of the odflvm operator have no
  reason exactly when they are a \<open>Success\<close>; the cluster verdicts of the odflvm operator never
  have a reason.\<close>

lemma lvm_ValidateCluster_reasons:
  "(Reasons (fst (lvm_ValidateCluster NewVersion LessThan ids c)) = [])
     = (Status (fst (lvm_ValidateCluster NewVersion LessThan ids c)) = Success)"
  by (simp add: lvm_ValidateCluster_def split: sum.split)

lemma odflvm_ValidateHost_reasons:
  "(Reasons (fst (odflvm_ValidateHost UnmarshalInventory ids config c h)) = [])
     = (Status (fst (odflvm_ValidateHost UnmarshalInventory ids config c h)) = Success)"
proof (cases "Inventory h = []")
  case True
  then show ?thesis by (simp add: odflvm_ValidateHost_no_inventory)
next
  case present: False
  show ?thesis
  proof (cases "UnmarshalInventory (Inventory h)")
    case (Inl err)
    with present show ?thesis
      by (simp add: odflvm_ValidateHost_unparsable [where UnmarshalInventory = UnmarshalInventory])
  next
    case (Inr inventory)
    with present show ?thesis
      by (simp add: odflvm_ValidateHost_parsed [where UnmarshalInventory = UnmarshalInventory])
  qed
qed

lemma lvm_ValidateHost_reasons:
  "(Reasons (fst (lvm_ValidateHost UnmarshalInventory lvm_getValidDiskCount ids config c h)) = [])
     = (Status (fst (lvm_ValidateHost UnmarshalInventory lvm_getValidDiskCount ids config c h))
          = Success)"
proof (cases "Inventory h = []")
  case True
  then show ?thesis by (simp add: lvm_ValidateHost_no_inventory)
next
  case present: False
  show ?thesis
  proof (cases "UnmarshalInventory (Inventory h)")
    case (Inl err)
    with present show ?thesis
      by (simp add: lvm_ValidateHost_unparsable [where UnmarshalInventory = UnmarshalInventory])
  next
    case parsed: (Inr inventory)
    show ?thesis
    proof (cases "lvm_getValidDiskCount (Disks inventory) (InstallationDiskID h)")
      case (Inl err)
      with present parsed show ?thesis
        by (simp add: lvm_ValidateHost_count_error [where UnmarshalInventory = UnmarshalInventory
              and lvm_getValidDiskCount = lvm_getValidDiskCount])
    next
      case (Inr diskCount)
      with present parsed show ?thesis
        by (simp add: lvm_ValidateHost_parsed [where UnmarshalInventory = UnmarshalInventory
              and lvm_getValidDiskCount = lvm_getValidDiskCount])
    qed
  qed
qed

lemma odflvm_ValidateCluster_eq:
  "odflvm_ValidateCluster ids c =
     (\<lparr>Status = (if IsSingleNodeCluster c then Success else Failure),
        ValidationId = odflvm_GetClusterValidationID ids, Reasons = []\<rparr>, None)"
  by (simp add: odflvm_ValidateCluster_def)

text \<open>
  \<^bold>\<open>Claim C7.\<close>  The reasons of a verdict should be empty if and only if its status is \<open>Success\<close>.  The
  odflvm operator's \<^verbatim>\<open>ValidateCluster\<close> breaks this on a cluster that is not single-node: the
  verdict is a \<open>Failure\<close> with no reason.
\<close>

theorem odflvm_ValidateCluster_failure_without_reason:
  "\<not> IsSingleNodeCluster clusterFull
   \<and> odflvm_ValidateCluster sample_ids clusterFull =
       (\<lparr>Status = Failure, ValidationId = odflvm_GetClusterValidationID sample_ids, Reasons = []\<rparr>,
        None)"
  by code_simp

text \<open>
  \<^bold>\<open>Claim C8.\<close>  As stated, the claim says that an unparsable version string makes the validator return
  a non-nil error.  The lvm operator's \<^verbatim>\<open>ValidateCluster\<close> returns the parse error as the
  reason of a \<open>Failure\<close> verdict, together with a nil error.
\<close>

theorem validators_error_propagation_counterexample:
  "IsSingleNodeCluster clusterNoneMalformed
   \<and> sample_NewVersion (OpenshiftVersion clusterNoneMalformed) = Inl ''Malformed version: latest''
   \<and> lvm_ValidateCluster sample_NewVersion sample_LessThan sample_ids clusterNoneMalformed =
       (\<lparr>Status = Failure, ValidationId = lvm_GetHostValidationID sample_ids,
          Reasons = [''Malformed version: latest'']\<rparr>, None)"
  by code_simp

text \<open>
  \<^bold>\<open>Claim C8, amended.\<close>  \<^verbatim>\<open>ValidateHost\<close> returns a non-nil error exactly when the inventory
  is present and does not parse, and the error is the decoder's; the \<open>Pending\<close> verdict and
  the failures for insufficient disks, CPU or RAM come with a nil error.  \<^verbatim>\<open>ValidateCluster\<close>
  always returns a nil error, also when a version string does not parse.
\<close>

theorem validators_error_propagation:
  "snd (lvm_ValidateCluster NewVersion LessThan ids c) = None
   \<and> snd (odflvm_ValidateCluster ids c) = None
   \<and> snd (lvm_ValidateHost UnmarshalInventory lvm_getValidDiskCount ids lc c h) =
       (if Inventory h = [] then None
        else (case UnmarshalInventory (Inventory h) of Inl err \<Rightarrow> Some err | Inr inventory \<Rightarrow> None))
   \<and> snd (odflvm_ValidateHost UnmarshalInventory ids oc c h) =
       (if Inventory h = [] then None
        else (case UnmarshalInventory (Inventory h) of Inl err \<Rightarrow> Some err | Inr inventory \<Rightarrow> None))"
proof (intro conjI)
  show "snd (lvm_ValidateCluster NewVersion LessThan ids c) = None"
    by (simp add: lvm_ValidateCluster_def split: sum.split)
  show "snd (odflvm_ValidateCluster ids c) = None"
    by (simp add: odflvm_ValidateCluster_def)
  show "snd (lvm_ValidateHost UnmarshalInventory lvm_getValidDiskCount ids lc c h) =
       (if Inventory h = [] then None
        else (case UnmarshalInventory (Inventory h) of Inl err \<Rightarrow> Some err | Inr inventory \<Rightarrow> None))"
    by (simp add: lvm_ValidateHost_def lvm_GetHostRequirements_eq Let_def split: sum.split)
  show "snd (odflvm_ValidateHost UnmarshalInventory ids oc c h) =
       (if Inventory h = [] then None
        else (case UnmarshalInventory (Inventory h) of Inl err \<Rightarrow> Some err | Inr inventory \<Rightarrow> None))"
    by (simp add: odflvm_ValidateHost_def odflvm_GetHostRequirements_def Let_def split: sum.split)
qed

end
